theory Spec2Isabelle
  imports Main "HOL-Library.Sublist"
begin

section \<open>The dashboard command of cmd/dashboard.go\<close>

text \<open>
  The file embeds the \<^verbatim>\<open>Run\<close> function of \<^verbatim>\<open>DashboardCmd\<close>. The command talks to
  collaborators of other packages (the cluster client, the pod query, the port
  forwarder, the browser, the standalone launcher, the printer). What each of them
  answers is a field of the record \<open>world\<close>; every call the main goroutine makes is an
  \<open>event\<close> of the trace, in program order; \<^verbatim>\<open>os.Exit\<close> ends the run with its status.
\<close>

subsection \<open>Constants\<close>

definition dashboardSvc :: string where
  "dashboardSvc = ''dapr-dashboard''"

definition defaultHost :: string where
  "defaultHost = ''localhost''"

definition defaultLocalPort :: int where
  "defaultLocalPort = 8080"

definition daprSystemNamespace :: string where
  "daprSystemNamespace = ''dapr-system''"

definition defaultNamespace :: string where
  "defaultNamespace = ''default''"

definition remotePort :: int where
  "remotePort = 8080"

subsection \<open>Flags, collaborators, events\<close>

text \<open>The package-level variables the flags are parsed into.\<close>

record flags =
  dashboardNamespace :: string
  dashboardLocalPort :: int
  dashboardVersion :: bool
  kubernetesMode :: bool

text \<open>A Go \<^verbatim>\<open>error\<close> value that is not nil, by its message.\<close>

type_synonym go_error = string

text \<open>
  The answers of the collaborators. An \<open>option\<close> of an error is \<open>None\<close> for Go's nil.
  \<^item> \<open>versionString\<close>: what \<^verbatim>\<open>standalone.GetDashboardVersion()\<close> returns;
  \<^item> \<open>kubeClientErr\<close>: the error of \<^verbatim>\<open>kubernetes.GetKubeConfigClient()\<close>;
  \<^item> \<open>podExists k ns\<close>: the pair \<^verbatim>\<open>(bool, string)\<close> that the \<open>k\<close>-th call (counted
    from 0) of \<^verbatim>\<open>kubernetes.CheckPodExists(client, ns, nil, dashboardSvc)\<close> returns; the
    cluster may answer differently from one call to the next;
  \<^item> \<open>newPortForwardErr ns port\<close>: the error of \<^verbatim>\<open>kubernetes.NewPortForward\<close>;
  \<^item> \<open>initErr\<close>: the error of \<^verbatim>\<open>portForward.Init()\<close>;
  \<^item> \<open>openURLErr url\<close>: the error of \<^verbatim>\<open>browser.OpenURL(url)\<close>;
  \<^item> \<open>standaloneRunErr port\<close>: the error of \<^verbatim>\<open>standalone.NewDashboardCmd(port).Run()\<close>;
  \<^item> \<open>interrupt\<close>: whether an \<^verbatim>\<open>os.Interrupt\<close> reaches the channel \<^verbatim>\<open>signals\<close>.
\<close>

record world =
  versionString :: string
  kubeClientErr :: "go_error option"
  podExists :: "nat \<Rightarrow> string \<Rightarrow> bool \<times> string"
  newPortForwardErr :: "string \<Rightarrow> int \<Rightarrow> go_error option"
  initErr :: "go_error option"
  openURLErr :: "string \<Rightarrow> go_error option"
  standaloneRunErr :: "int \<Rightarrow> go_error option"
  interrupt :: bool

text \<open>An argument after the format string of a print call.\<close>

datatype fmtarg = ArgString string | ArgInt int | ArgError go_error

text \<open>
  The calls of the main goroutine. The two status printers carry the format string and
  the arguments of the call site; \<open>CheckPodExists ns\<close> is an existence query in the
  namespace \<open>ns\<close>, the empty string being Go's query over all namespaces;
  \<open>NewPortForward\<close> carries the namespace, the service, the host, the local port, the
  remote port and the last (boolean) argument; \<open>WaitStop\<close> is the receive on
  \<^verbatim>\<open>portForward.GetStop()\<close>; \<open>SignalStop\<close> is the deferred \<^verbatim>\<open>signal.Stop(signals)\<close>.
\<close>

datatype event =
    Println string
  | InfoStatusEvent string "fmtarg list"
  | FailureStatusEvent string "fmtarg list"
  | GetKubeConfigClient
  | CheckPodExists string
  | SignalNotify
  | NewPortForward string string string int int bool
  | PortForwardInit
  | OpenURL string
  | WaitStop
  | SignalStop
  | StandaloneRun int

text \<open>
  How a run ends: \<^verbatim>\<open>os.Exit\<close> with a status, the return of \<^verbatim>\<open>Run\<close>, or the main
  goroutine waiting for ever on the stop channel.
\<close>

datatype outcome = Exit int | Returned | Blocked

subsection \<open>The tunnel\<close>

text \<open>
  Modelled from the spec: the type \<^verbatim>\<open>PortForward\<close> of package kubernetes is not in the
  source file. The spec gives a tunnel the states Created, Initialized, Running and
  Stopped. \<open>stopFirings\<close> counts the firings of its StopSignal.
\<close>

datatype tunnel_state = Created | Initialized | Running | Stopped

record PortForward =
  phase :: tunnel_state
  stopFirings :: nat

text \<open>
  Modelled from the spec: the tunnel that \<^verbatim>\<open>kubernetes.NewPortForward\<close> returns with a nil
  error, in the state Created, its StopSignal not fired.
\<close>

definition newTunnel :: PortForward where
  "newTunnel = \<lparr>phase = Created, stopFirings = 0\<rparr>"

text \<open>
  Modelled from the spec: \<^verbatim>\<open>PortForward.Init\<close>, whose error is the argument \<open>r\<close>. An
  initialize call that succeeds establishes the connection (Initialized), and the
  tunnel then runs with no further call (Running); one that fails returns the error.
\<close>

definition Init :: "go_error option \<Rightarrow> PortForward \<Rightarrow> go_error + PortForward" where
  "Init r pf = (case r of Some err \<Rightarrow> Inl err | None \<Rightarrow> Inr (pf\<lparr>phase := Running\<rparr>))"

text \<open>
  Modelled from the spec: \<^verbatim>\<open>PortForward.Stop\<close>. A stop request on a tunnel that is not
  stopped stops it and fires the StopSignal; a stop request on a stopped tunnel is a
  no-op.
\<close>

definition Stop :: "PortForward \<Rightarrow> PortForward" where
  "Stop pf =
     (if phase pf = Stopped then pf
      else pf\<lparr>phase := Stopped, stopFirings := Suc (stopFirings pf)\<rparr>)"

text \<open>
  Modelled from the spec: \<^verbatim>\<open>PortForward.GetStop\<close>, by whether a receive on the channel
  it returns completes: it does once the StopSignal has fired.
\<close>

definition GetStop :: "PortForward \<Rightarrow> bool" where
  "GetStop pf = (0 < stopFirings pf)"

subsection \<open>Formatting\<close>

text \<open>Go's \<^verbatim>\<open>%d\<close> of an \<^verbatim>\<open>int\<close>: decimal digits, a minus sign before a negative value.\<close>

definition digit :: "nat \<Rightarrow> char" where
  "digit d = ''0123456789'' ! d"

fun showNat :: "nat \<Rightarrow> string" where
  "showNat n = (if n < 10 then [digit n] else showNat (n div 10) @ [digit (n mod 10)])"

declare showNat.simps [simp del]

definition showInt :: "int \<Rightarrow> string" where
  "showInt i = (if i < 0 then CHR ''-'' # showNat (nat (- i)) else showNat (nat i))"

text \<open>\<^verbatim>\<open>fmt.Sprintf("http://%s:%d", defaultHost, dashboardLocalPort)\<close>\<close>

definition webURL :: "int \<Rightarrow> string" where
  "webURL port = ''http://'' @ defaultHost @ '':'' @ showInt port"

subsection \<open>The namespace search\<close>

text \<open>Lines 69 to 75: the candidate namespaces.\<close>

definition namespaces :: "string \<Rightarrow> string list" where
  "namespaces ns =
     (let l0 = [ns];
          l1 = (if ns \<noteq> daprSystemNamespace then l0 @ [daprSystemNamespace] else l0);
          l2 = (if ns \<noteq> defaultNamespace then l1 @ [defaultNamespace] else l1)
      in l2)"

text \<open>
  Lines 77 to 84: the loop over the candidates. \<open>chk\<close> is the query, \<open>k\<close> the number
  of queries made before. The result is \<^verbatim>\<open>foundNamespace\<close> (the empty string when the
  loop ends without a hit) and the namespaces queried, in order. Only the boolean of
  the query's answer is read.
\<close>

fun searchNamespaces ::
  "(nat \<Rightarrow> string \<Rightarrow> bool \<times> string) \<Rightarrow> nat \<Rightarrow> string list \<Rightarrow> string \<times> string list" where
  "searchNamespaces chk k [] = ('''', [])"
| "searchNamespaces chk k (namespace # rest) =
     (let (ok, _) = chk k namespace in
      if ok then (namespace, [namespace])
      else (let (foundNamespace, probed) = searchNamespaces chk (Suc k) rest
            in (foundNamespace, namespace # probed)))"

subsection \<open>The command\<close>

text \<open>
  A run: the calls of the main goroutine in program order, the tunnel handle it has
  created (if any) in its last state, and how the run ends.
\<close>

record result =
  trace :: "event list"
  tunnel :: "PortForward option"
  outcome :: outcome

text \<open>
  Lines 126 to 129: the goroutine that receives from \<^verbatim>\<open>signals\<close> and then calls
  \<^verbatim>\<open>portForward.Stop()\<close>, once. Its call may come at any moment after it is started;
  the main goroutine observes it in one place only, its receive on the stop channel,
  and the model applies it there. The calls of this goroutine are not in the trace.
\<close>

definition interruptListener :: "world \<Rightarrow> PortForward \<Rightarrow> PortForward" where
  "interruptListener w pf = (if interrupt w then Stop pf else pf)"

text \<open>Lines 134, 135, 139 and 140: the messages about the tunnel and its URL.\<close>

definition foundMsg :: "string \<Rightarrow> event" where
  "foundMsg foundNamespace =
     InfoStatusEvent (''Dapr dashboard found in namespace:'' @ [CHR 0x09] @ foundNamespace) []"

definition availableMsg :: "string \<Rightarrow> event" where
  "availableMsg url =
     InfoStatusEvent (''Dapr dashboard available at:'' @ [CHR 0x09] @ url @ ''\<newline>'') []"

definition browserFailureMsgs :: "string \<Rightarrow> event list" where
  "browserFailureMsgs url =
     [FailureStatusEvent ''Failed to start Dapr dashboard in browser automatically'' [],
      FailureStatusEvent (''Visit '' @ url @ '' in your browser to view the dashboard'') []]"

text \<open>
  Lines 131 to 143, after \<^verbatim>\<open>Init\<close> has succeeded: the two messages, the browser, the
  receive on the stop channel. The deferred \<^verbatim>\<open>signal.Stop\<close> runs when \<^verbatim>\<open>Run\<close> returns.
\<close>

definition announceAndWait :: "flags \<Rightarrow> world \<Rightarrow> string \<Rightarrow> PortForward \<Rightarrow> result" where
  "announceAndWait f w foundNamespace pf =
     (let url = webURL (dashboardLocalPort f);
          t = [foundMsg foundNamespace, availableMsg url, OpenURL url]
              @ (case openURLErr w url of
                   Some err \<Rightarrow> browserFailureMsgs url
                 | None \<Rightarrow> [])
              @ [WaitStop];
          pf' = interruptListener w pf
      in if GetStop pf'
         then \<lparr>trace = t @ [SignalStop], tunnel = Some pf', outcome = Returned\<rparr>
         else \<lparr>trace = t, tunnel = Some pf', outcome = Blocked\<rparr>)"

text \<open>Lines 100 to 143: the tunnel to the namespace found.\<close>

definition forwardDashboard :: "flags \<Rightarrow> world \<Rightarrow> string \<Rightarrow> result" where
  "forwardDashboard f w foundNamespace =
     (let t = [SignalNotify,
               NewPortForward foundNamespace dashboardSvc defaultHost
                 (dashboardLocalPort f) remotePort False]
      in case newPortForwardErr w foundNamespace (dashboardLocalPort f) of
           Some err \<Rightarrow>
             \<lparr>trace = t @ [FailureStatusEvent ''%s\<newline>'' [ArgError err]],
              tunnel = None, outcome = Exit 1\<rparr>
         | None \<Rightarrow>
             (case Init (initErr w) newTunnel of
                Inl err \<Rightarrow>
                  \<lparr>trace = t @ [PortForwardInit,
                     FailureStatusEvent
                       (''Error in port forwarding: %s\<newline>Check for `dapr dashboard` running in other terminal sessions, ''
                        @ ''or use the `--port` flag to use a different port.\<newline>'')
                       [ArgError err]],
                   tunnel = Some newTunnel, outcome = Exit 1\<rparr>
              | Inr pf \<Rightarrow>
                  (let r = announceAndWait f w foundNamespace pf
                   in r\<lparr>trace := t @ [PortForwardInit] @ trace r\<rparr>)))"

text \<open>
  Lines 88 to 96: the query over all namespaces, the \<open>k\<close>-th of the run, and the message
  on its answer.
\<close>

definition searchAllPods :: "world \<Rightarrow> nat \<Rightarrow> event list" where
  "searchAllPods w k =
     (let (ok, nspace) = podExists w k ''''
      in [CheckPodExists '''',
          if ok
          then InfoStatusEvent
                 ''Dapr dashboard found in namespace: %s. Run dapr dashboard -k -n %s to use this namespace.''
                 [ArgString nspace, ArgString nspace]
          else FailureStatusEvent
                 ''Failed to find Dapr dashboard in cluster. Check status of dapr dashboard in the cluster.''
                 []])"

text \<open>Lines 61 to 143: cluster mode.\<close>

definition clusterMode :: "flags \<Rightarrow> world \<Rightarrow> result" where
  "clusterMode f w =
     (case kubeClientErr w of
        Some err \<Rightarrow>
          \<lparr>trace = [GetKubeConfigClient,
             FailureStatusEvent ''Failed to initialize kubernetes client: %s'' [ArgString err]],
           tunnel = None, outcome = Exit 1\<rparr>
      | None \<Rightarrow>
          (let (foundNamespace, probed) =
                 searchNamespaces (podExists w) 0 (namespaces (dashboardNamespace f));
               t = GetKubeConfigClient # map CheckPodExists probed
           in if foundNamespace = ''''
              then \<lparr>trace = t @ searchAllPods w (length probed),
                    tunnel = None, outcome = Exit 1\<rparr>
              else (let r = forwardDashboard f w foundNamespace
                    in r\<lparr>trace := t @ trace r\<rparr>)))"

text \<open>Lines 145 to 149: standalone mode.\<close>

definition standaloneMode :: "flags \<Rightarrow> world \<Rightarrow> result" where
  "standaloneMode f w =
     (case standaloneRunErr w (dashboardLocalPort f) of
        Some err \<Rightarrow>
          \<lparr>trace = [StandaloneRun (dashboardLocalPort f),
             FailureStatusEvent ''Dapr dashboard not found. Is Dapr installed?'' []],
           tunnel = None, outcome = Returned\<rparr>
      | None \<Rightarrow>
          \<lparr>trace = [StandaloneRun (dashboardLocalPort f)], tunnel = None, outcome = Returned\<rparr>)"

text \<open>Lines 49 to 151.\<close>

definition Run :: "flags \<Rightarrow> world \<Rightarrow> result" where
  "Run f w =
     (if dashboardVersion f
      then \<lparr>trace = [Println (versionString w)], tunnel = None, outcome = Exit 0\<rparr>
      else if dashboardLocalPort f \<le> 0
      then \<lparr>trace = [FailureStatusEvent ''Invalid port: %v'' [ArgInt (dashboardLocalPort f)]],
            tunnel = None, outcome = Exit 1\<rparr>
      else if kubernetesMode f then clusterMode f w
      else standaloneMode f w)"

subsection \<open>Observations on a trace\<close>

text \<open>The namespaces of the existence queries of a trace, in order.\<close>

fun probes :: "event list \<Rightarrow> string list" where
  "probes [] = []"
| "probes (CheckPodExists ns # t) = ns # probes t"
| "probes (e # t) = probes t"

text \<open>The calls on the tunnel provider and on the tunnel.\<close>

fun isNewPortForward :: "event \<Rightarrow> bool" where
  "isNewPortForward (NewPortForward ns svc host lport rport ssl) = True"
| "isNewPortForward e = False"

fun isTunnelCall :: "event \<Rightarrow> bool" where
  "isTunnelCall (NewPortForward ns svc host lport rport ssl) = True"
| "isTunnelCall PortForwardInit = True"
| "isTunnelCall WaitStop = True"
| "isTunnelCall e = False"

definition tunnelsCreated :: "event list \<Rightarrow> nat" where
  "tunnelsCreated t = length (filter isNewPortForward t)"

text \<open>A "dashboard available" message, whatever URL it carries.\<close>

fun isAvailableMsg :: "event \<Rightarrow> bool" where
  "isAvailableMsg (InfoStatusEvent s args) = prefix ''Dapr dashboard available at:'' s"
| "isAvailableMsg e = False"

subsection \<open>Example invocations\<close>

text \<open>
  \<^verbatim>\<open>dapr dashboard -k -n custom -p 9090\<close> against a cluster that has the dashboard in
  \<^verbatim>\<open>dapr-system\<close> only, on a machine where the browser cannot be opened and the user
  interrupts the command in the end.
\<close>

definition exampleFlags :: flags where
  "exampleFlags =
     \<lparr>dashboardNamespace = ''custom'', dashboardLocalPort = 9090,
      dashboardVersion = False, kubernetesMode = True\<rparr>"

definition exampleWorld :: world where
  "exampleWorld =
     \<lparr>versionString = ''0.1.0'', kubeClientErr = None,
      podExists = (\<lambda>k ns. (ns = ''dapr-system'', ns)),
      newPortForwardErr = (\<lambda>ns port. None), initErr = None,
      openURLErr = (\<lambda>url. Some ''exec: xdg-open not found''),
      standaloneRunErr = (\<lambda>port. Some ''exit status 1''),
      interrupt = True\<rparr>"

text \<open>A cluster with no dashboard at all, and one whose client cannot be built.\<close>

definition emptyCluster :: world where
  "emptyCluster = exampleWorld\<lparr>podExists := (\<lambda>k ns. (False, ''''))\<rparr>"

definition noCluster :: world where
  "noCluster = exampleWorld\<lparr>kubeClientErr := Some ''invalid configuration''\<rparr>"

text \<open>\<^verbatim>\<open>dapr dashboard -v -k -n custom -p 0\<close>.\<close>

definition versionFlags :: flags where
  "versionFlags = exampleFlags\<lparr>dashboardVersion := True, dashboardLocalPort := 0\<rparr>"

text \<open>The cluster of the example, its queries answering with another string.\<close>

definition otherAnswers :: world where
  "otherAnswers = exampleWorld\<lparr>podExists := (\<lambda>k ns. (ns = ''dapr-system'', ''other''))\<rparr>"

text \<open>\<^verbatim>\<open>dapr dashboard -n custom -p 9090\<close>, with the launcher of the example failing.\<close>

definition standaloneFlags :: flags where
  "standaloneFlags = exampleFlags\<lparr>kubernetesMode := False\<rparr>"

subsection \<open>Reading a decimal numeral\<close>

text \<open>
  The number a string of decimal digits stands for; it is not part of the command and
  serves to state that \<open>showNat\<close> writes decimal numerals.
\<close>

definition digitValue :: "char \<Rightarrow> nat" where
  "digitValue c = of_char c - 48"

definition readNat :: "string \<Rightarrow> nat" where
  "readNat s = foldl (\<lambda>acc c. 10 * acc + digitValue c) 0 s"

section \<open>The candidate namespaces\<close>

lemma namespaces_eq:
  "namespaces ns =
     ns # (if ns \<noteq> daprSystemNamespace then [daprSystemNamespace] else [])
        @ (if ns \<noteq> defaultNamespace then [defaultNamespace] else [])"
  by (simp add: namespaces_def)

lemma namespaces_distinct: "distinct (namespaces ns)"
  by (auto simp: namespaces_eq daprSystemNamespace_def defaultNamespace_def)

lemma empty_not_later_candidate: "'''' \<notin> set (drop (Suc i) (namespaces ns))"
  by (cases i) (auto simp: namespaces_eq daprSystemNamespace_def defaultNamespace_def
      dest: in_set_dropD)

lemma example_namespaces:
  "namespaces (dashboardNamespace exampleFlags) = [''custom'', ''dapr-system'', ''default'']"
  by (simp add: namespaces_eq exampleFlags_def daprSystemNamespace_def defaultNamespace_def)

text \<open>
  C2. For every user-supplied namespace the candidate list is the user namespace, then
  \<^verbatim>\<open>dapr-system\<close> if it is another namespace, then \<^verbatim>\<open>default\<close> if it is another
  namespace. No namespace occurs twice in the list, and the list is a subsequence of
  user, system, default: the priority order is kept.
\<close>

theorem namespaces_candidates:
  "namespaces ns =
     ns # (if ns \<noteq> ''dapr-system'' then [''dapr-system''] else [])
        @ (if ns \<noteq> ''default'' then [''default''] else [])
   \<and> distinct (namespaces ns)
   \<and> subseq (namespaces ns) [ns, ''dapr-system'', ''default'']"
proof -
  have shape: "namespaces ns =
     ns # (if ns \<noteq> ''dapr-system'' then [''dapr-system''] else [])
        @ (if ns \<noteq> ''default'' then [''default''] else [])"
    by (simp add: namespaces_eq daprSystemNamespace_def defaultNamespace_def)
  have nodup: "distinct (namespaces ns)"
    unfolding shape by auto
  have order: "subseq (namespaces ns) [ns, ''dapr-system'', ''default'']"
    unfolding shape by auto
  from shape nodup order show ?thesis by blast
qed

theorem namespaces_candidates_witness:
  "namespaces ''custom'' = [''custom'', ''dapr-system'', ''default'']
   \<and> namespaces ''dapr-system'' = [''dapr-system'', ''default'']
   \<and> namespaces ''default'' = [''default'', ''dapr-system'']"
  using namespaces_candidates [of "''custom''"] namespaces_candidates [of "''dapr-system''"]
    namespaces_candidates [of "''default''"]
  by simp

section \<open>The loop over the candidates\<close>

text \<open>
  The loop reads the boolean of each answer and nothing else; the equation below is the
  loop body in that form.
\<close>

lemma searchNamespaces_Cons:
  "searchNamespaces chk k (n # rest) =
     (if fst (chk k n) then (n, [n])
      else (fst (searchNamespaces chk (Suc k) rest),
            n # snd (searchNamespaces chk (Suc k) rest)))"
  by (simp add: case_prod_beta)

declare searchNamespaces.simps(2) [simp del]

lemma search_first_hit:
  "i < length ns \<Longrightarrow> fst (chk (k + i) (ns ! i)) \<Longrightarrow> \<forall>j<i. \<not> fst (chk (k + j) (ns ! j)) \<Longrightarrow>
     searchNamespaces chk k ns = (ns ! i, take (Suc i) ns)"
proof (induction ns arbitrary: k i)
  case Nil
  then show ?case by simp
next
  case (Cons n rest)
  show ?case
  proof (cases i)
    case 0
    with Cons.prems show ?thesis by (simp add: searchNamespaces_Cons)
  next
    case (Suc i')
    from Cons.prems Suc have miss: "\<not> fst (chk k n)" by fastforce
    have len: "i' < length rest" using Cons.prems Suc by simp
    have hit: "fst (chk (Suc k + i') (rest ! i'))" using Cons.prems Suc by simp
    have before: "\<forall>j<i'. \<not> fst (chk (Suc k + j) (rest ! j))"
    proof (intro allI impI)
      fix j assume "j < i'"
      then have "Suc j < i" using Suc by simp
      with Cons.prems(3) have "\<not> fst (chk (k + Suc j) ((n # rest) ! Suc j))" by blast
      then show "\<not> fst (chk (Suc k + j) (rest ! j))" by simp
    qed
    from Cons.IH [OF len hit before] miss Suc show ?thesis
      by (simp add: searchNamespaces_Cons)
  qed
qed

lemma search_no_hit:
  "\<forall>j<length ns. \<not> fst (chk (k + j) (ns ! j)) \<Longrightarrow> searchNamespaces chk k ns = ('''', ns)"
proof (induction ns arbitrary: k)
  case Nil
  then show ?case by simp
next
  case (Cons n rest)
  from Cons.prems have miss: "\<not> fst (chk k n)" by fastforce
  have "\<forall>j<length rest. \<not> fst (chk (Suc k + j) (rest ! j))"
  proof (intro allI impI)
    fix j assume "j < length rest"
    then have "Suc j < length (n # rest)" by simp
    with Cons.prems have "\<not> fst (chk (k + Suc j) ((n # rest) ! Suc j))" by blast
    then show "\<not> fst (chk (Suc k + j) (rest ! j))" by simp
  qed
  from Cons.IH [OF this] miss show ?case by (simp add: searchNamespaces_Cons)
qed

lemma search_bool_only:
  "(\<And>j n. fst (c1 j n) = fst (c2 j n)) \<Longrightarrow> searchNamespaces c1 k ns = searchNamespaces c2 k ns"
proof (induction ns arbitrary: k)
  case Nil
  show ?case by simp
next
  case (Cons n rest)
  have "fst (c1 k n) = fst (c2 k n)" using Cons.prems by simp
  moreover have "searchNamespaces c1 (Suc k) rest = searchNamespaces c2 (Suc k) rest"
    using Cons.IH Cons.prems by simp
  ultimately show ?case by (simp add: searchNamespaces_Cons)
qed

lemma search_probed_prefix: "prefix (snd (searchNamespaces chk k ns)) ns"
  by (induction ns arbitrary: k) (simp_all add: searchNamespaces_Cons)

section \<open>The runs of the command\<close>

text \<open>What the blocks of \<^verbatim>\<open>Run\<close> do, branch by branch.\<close>

lemma searchAllPods_eq:
  "searchAllPods w k =
     [CheckPodExists '''',
      if fst (podExists w k '''')
      then InfoStatusEvent
             ''Dapr dashboard found in namespace: %s. Run dapr dashboard -k -n %s to use this namespace.''
             [ArgString (snd (podExists w k '''')), ArgString (snd (podExists w k ''''))]
      else FailureStatusEvent
             ''Failed to find Dapr dashboard in cluster. Check status of dapr dashboard in the cluster.''
             []]"
  by (simp add: searchAllPods_def case_prod_beta)

lemma standaloneMode_eq:
  "standaloneMode f w =
     \<lparr>trace = StandaloneRun (dashboardLocalPort f)
              # (case standaloneRunErr w (dashboardLocalPort f) of
                   Some err \<Rightarrow> [FailureStatusEvent ''Dapr dashboard not found. Is Dapr installed?'' []]
                 | None \<Rightarrow> []),
      tunnel = None, outcome = Returned\<rparr>"
  by (simp add: standaloneMode_def split: option.splits)

lemma forward_newPortForward_fails:
  "newPortForwardErr w ns (dashboardLocalPort f) = Some err \<Longrightarrow>
     forwardDashboard f w ns =
       \<lparr>trace = [SignalNotify,
                 NewPortForward ns dashboardSvc defaultHost (dashboardLocalPort f) remotePort False,
                 FailureStatusEvent ''%s\<newline>'' [ArgError err]],
        tunnel = None, outcome = Exit 1\<rparr>"
  by (simp add: forwardDashboard_def)

lemma forward_init_fails:
  "newPortForwardErr w ns (dashboardLocalPort f) = None \<Longrightarrow> initErr w = Some err \<Longrightarrow>
     trace (forwardDashboard f w ns) =
       [SignalNotify,
        NewPortForward ns dashboardSvc defaultHost (dashboardLocalPort f) remotePort False,
        PortForwardInit,
        FailureStatusEvent
          (''Error in port forwarding: %s\<newline>Check for `dapr dashboard` running in other terminal sessions, ''
           @ ''or use the `--port` flag to use a different port.\<newline>'')
          [ArgError err]]
     \<and> tunnel (forwardDashboard f w ns) = Some newTunnel
     \<and> outcome (forwardDashboard f w ns) = Exit 1"
  by (simp add: forwardDashboard_def Init_def)

lemma forward_running:
  "newPortForwardErr w ns (dashboardLocalPort f) = None \<Longrightarrow> initErr w = None \<Longrightarrow>
     trace (forwardDashboard f w ns) =
       [SignalNotify,
        NewPortForward ns dashboardSvc defaultHost (dashboardLocalPort f) remotePort False,
        PortForwardInit,
        foundMsg ns, availableMsg (webURL (dashboardLocalPort f)),
        OpenURL (webURL (dashboardLocalPort f))]
       @ (case openURLErr w (webURL (dashboardLocalPort f)) of
            Some err \<Rightarrow> browserFailureMsgs (webURL (dashboardLocalPort f))
          | None \<Rightarrow> [])
       @ WaitStop # (if interrupt w then [SignalStop] else [])
     \<and> tunnel (forwardDashboard f w ns) =
         Some (if interrupt w then \<lparr>phase = Stopped, stopFirings = 1\<rparr>
               else \<lparr>phase = Running, stopFirings = 0\<rparr>)
     \<and> outcome (forwardDashboard f w ns) = (if interrupt w then Returned else Blocked)"
  by (simp add: forwardDashboard_def Init_def announceAndWait_def Let_def interruptListener_def
      Stop_def GetStop_def newTunnel_def)

lemma Run_cluster:
  "\<not> dashboardVersion f \<Longrightarrow> 0 < dashboardLocalPort f \<Longrightarrow> kubernetesMode f \<Longrightarrow>
   kubeClientErr w = None \<Longrightarrow>
   searchNamespaces (podExists w) 0 (namespaces (dashboardNamespace f)) = (found, probed) \<Longrightarrow>
   Run f w =
     (if found = ''''
      then \<lparr>trace = GetKubeConfigClient # map CheckPodExists probed @ searchAllPods w (length probed),
            tunnel = None, outcome = Exit 1\<rparr>
      else (forwardDashboard f w found)
             \<lparr>trace := GetKubeConfigClient # map CheckPodExists probed
                        @ trace (forwardDashboard f w found)\<rparr>)"
  by (simp add: Run_def clusterMode_def Let_def)

text \<open>
  Every run is of one of eight kinds: the version is printed; the port is rejected;
  standalone mode; the cluster client cannot be built; the dashboard is in no candidate
  namespace; the tunnel cannot be created; the tunnel cannot be initialized; the tunnel
  runs.
\<close>

lemma Run_cases [case_names Version InvalidPort Standalone NoClient NotFound NoTunnel InitFails Running]:
  obtains
    "dashboardVersion f"
    "Run f w = \<lparr>trace = [Println (versionString w)], tunnel = None, outcome = Exit 0\<rparr>"
  | "\<not> dashboardVersion f" "dashboardLocalPort f \<le> 0"
    "Run f w =
       \<lparr>trace = [FailureStatusEvent ''Invalid port: %v'' [ArgInt (dashboardLocalPort f)]],
        tunnel = None, outcome = Exit 1\<rparr>"
  | "\<not> dashboardVersion f" "0 < dashboardLocalPort f" "\<not> kubernetesMode f"
    "Run f w = standaloneMode f w"
  | err where "\<not> dashboardVersion f" "0 < dashboardLocalPort f" "kubernetesMode f"
    "kubeClientErr w = Some err"
    "Run f w =
       \<lparr>trace = [GetKubeConfigClient,
          FailureStatusEvent ''Failed to initialize kubernetes client: %s'' [ArgString err]],
        tunnel = None, outcome = Exit 1\<rparr>"
  | probed where "\<not> dashboardVersion f" "0 < dashboardLocalPort f" "kubernetesMode f"
    "kubeClientErr w = None"
    "searchNamespaces (podExists w) 0 (namespaces (dashboardNamespace f)) = ('''', probed)"
    "Run f w =
       \<lparr>trace = GetKubeConfigClient # map CheckPodExists probed @ searchAllPods w (length probed),
        tunnel = None, outcome = Exit 1\<rparr>"
  | found probed err where "\<not> dashboardVersion f" "0 < dashboardLocalPort f" "kubernetesMode f"
    "kubeClientErr w = None"
    "searchNamespaces (podExists w) 0 (namespaces (dashboardNamespace f)) = (found, probed)"
    "found \<noteq> ''''" "newPortForwardErr w found (dashboardLocalPort f) = Some err"
    "Run f w =
       \<lparr>trace = GetKubeConfigClient # map CheckPodExists probed @
          [SignalNotify,
           NewPortForward found dashboardSvc defaultHost (dashboardLocalPort f) remotePort False,
           FailureStatusEvent ''%s\<newline>'' [ArgError err]],
        tunnel = None, outcome = Exit 1\<rparr>"
  | found probed err where "\<not> dashboardVersion f" "0 < dashboardLocalPort f" "kubernetesMode f"
    "kubeClientErr w = None"
    "searchNamespaces (podExists w) 0 (namespaces (dashboardNamespace f)) = (found, probed)"
    "found \<noteq> ''''" "newPortForwardErr w found (dashboardLocalPort f) = None"
    "initErr w = Some err"
    "Run f w =
       \<lparr>trace = GetKubeConfigClient # map CheckPodExists probed @
          [SignalNotify,
           NewPortForward found dashboardSvc defaultHost (dashboardLocalPort f) remotePort False,
           PortForwardInit,
           FailureStatusEvent
             (''Error in port forwarding: %s\<newline>Check for `dapr dashboard` running in other terminal sessions, ''
              @ ''or use the `--port` flag to use a different port.\<newline>'')
             [ArgError err]],
        tunnel = Some newTunnel, outcome = Exit 1\<rparr>"
  | found probed where "\<not> dashboardVersion f" "0 < dashboardLocalPort f" "kubernetesMode f"
    "kubeClientErr w = None"
    "searchNamespaces (podExists w) 0 (namespaces (dashboardNamespace f)) = (found, probed)"
    "found \<noteq> ''''" "newPortForwardErr w found (dashboardLocalPort f) = None"
    "initErr w = None"
    "Run f w =
       \<lparr>trace = GetKubeConfigClient # map CheckPodExists probed @
          [SignalNotify,
           NewPortForward found dashboardSvc defaultHost (dashboardLocalPort f) remotePort False,
           PortForwardInit,
           foundMsg found, availableMsg (webURL (dashboardLocalPort f)),
           OpenURL (webURL (dashboardLocalPort f))]
          @ (case openURLErr w (webURL (dashboardLocalPort f)) of
               Some err \<Rightarrow> browserFailureMsgs (webURL (dashboardLocalPort f))
             | None \<Rightarrow> [])
          @ WaitStop # (if interrupt w then [SignalStop] else []),
        tunnel = Some (if interrupt w then \<lparr>phase = Stopped, stopFirings = 1\<rparr>
                       else \<lparr>phase = Running, stopFirings = 0\<rparr>),
        outcome = (if interrupt w then Returned else Blocked)\<rparr>"
proof (cases "dashboardVersion f")
  case True
  then show ?thesis using that(1) by (simp add: Run_def)
next
  case nv: False
  show ?thesis
  proof (cases "dashboardLocalPort f \<le> 0")
    case True
    with nv show ?thesis using that(2) by (simp add: Run_def)
  next
    case False
    then have port: "0 < dashboardLocalPort f" by simp
    show ?thesis
    proof (cases "kubernetesMode f")
      case False
      with nv port show ?thesis using that(3) by (simp add: Run_def)
    next
      case k8s: True
      show ?thesis
      proof (cases "kubeClientErr w")
        case (Some err)
        with nv port k8s show ?thesis using that(4) by (simp add: Run_def clusterMode_def)
      next
        case client: None
        obtain found probed where
          s: "searchNamespaces (podExists w) 0 (namespaces (dashboardNamespace f)) = (found, probed)"
          by fastforce
        note run = Run_cluster [OF nv port k8s client s]
        show ?thesis
        proof (cases "found = ''''")
          case True
          with run s nv port k8s client show ?thesis using that(5) by simp
        next
          case nonempty: False
          show ?thesis
          proof (cases "newPortForwardErr w found (dashboardLocalPort f)")
            case (Some err)
            from run nonempty forward_newPortForward_fails [OF Some]
            have "Run f w =
               \<lparr>trace = GetKubeConfigClient # map CheckPodExists probed @
                  [SignalNotify,
                   NewPortForward found dashboardSvc defaultHost (dashboardLocalPort f) remotePort False,
                   FailureStatusEvent ''%s\<newline>'' [ArgError err]],
                tunnel = None, outcome = Exit 1\<rparr>"
              by simp
            with s nv port k8s client nonempty Some show ?thesis using that(6) by blast
          next
            case pf: None
            show ?thesis
            proof (cases "initErr w")
              case (Some err)
              from run nonempty forward_init_fails [OF pf Some]
              have "Run f w =
                 \<lparr>trace = GetKubeConfigClient # map CheckPodExists probed @
                    [SignalNotify,
                     NewPortForward found dashboardSvc defaultHost (dashboardLocalPort f) remotePort False,
                     PortForwardInit,
                     FailureStatusEvent
                       (''Error in port forwarding: %s\<newline>Check for `dapr dashboard` running in other terminal sessions, ''
                        @ ''or use the `--port` flag to use a different port.\<newline>'')
                       [ArgError err]],
                  tunnel = Some newTunnel, outcome = Exit 1\<rparr>"
                by (cases "forwardDashboard f w found") simp
              with s nv port k8s client nonempty pf Some show ?thesis using that(7) by blast
            next
              case init: None
              from run nonempty forward_running [OF pf init]
              have "Run f w =
                 \<lparr>trace = GetKubeConfigClient # map CheckPodExists probed @
                    [SignalNotify,
                     NewPortForward found dashboardSvc defaultHost (dashboardLocalPort f) remotePort False,
                     PortForwardInit,
                     foundMsg found, availableMsg (webURL (dashboardLocalPort f)),
                     OpenURL (webURL (dashboardLocalPort f))]
                    @ (case openURLErr w (webURL (dashboardLocalPort f)) of
                         Some err \<Rightarrow> browserFailureMsgs (webURL (dashboardLocalPort f))
                       | None \<Rightarrow> [])
                    @ WaitStop # (if interrupt w then [SignalStop] else []),
                  tunnel = Some (if interrupt w then \<lparr>phase = Stopped, stopFirings = 1\<rparr>
                                 else \<lparr>phase = Running, stopFirings = 0\<rparr>),
                  outcome = (if interrupt w then Returned else Blocked)\<rparr>"
                by (cases "forwardDashboard f w found") simp
              with s nv port k8s client nonempty pf init show ?thesis using that(8) by blast
            qed
          qed
        qed
      qed
    qed
  qed
qed

text \<open>Which events are what, for the observations on a trace.\<close>

lemma probes_map_CheckPodExists [simp]: "probes (map CheckPodExists xs) = xs"
  by (induction xs) auto

lemma probes_append [simp]: "probes (s @ t) = probes s @ probes t"
  by (induction s rule: probes.induct) auto

lemma forward_no_probes: "probes (trace (forwardDashboard f w ns)) = []"
  by (simp add: forwardDashboard_def Init_def announceAndWait_def Let_def foundMsg_def
      availableMsg_def browserFailureMsgs_def split: option.splits)

lemma forward_creates_tunnel:
  "NewPortForward ns dashboardSvc defaultHost (dashboardLocalPort f) remotePort False
     \<in> set (trace (forwardDashboard f w ns))"
  by (simp add: forwardDashboard_def Init_def Let_def split: option.splits)

lemma probe_events [simp]:
  "\<not> list_ex isAvailableMsg (map CheckPodExists xs)"
  "filter isNewPortForward (map CheckPodExists xs) = []"
  "count_list (map CheckPodExists xs) WaitStop = 0"
  "count_list (map CheckPodExists xs) PortForwardInit = 0"
  by (induction xs) auto

lemma message_events [simp]:
  "\<not> isAvailableMsg (foundMsg ns)"
  "isAvailableMsg (availableMsg url)"
  "\<not> list_ex isAvailableMsg (browserFailureMsgs url)"
  "\<not> list_ex isAvailableMsg (searchAllPods w k)"
  "foundMsg ns \<noteq> WaitStop" "foundMsg ns \<noteq> PortForwardInit"
  "availableMsg url \<noteq> WaitStop" "availableMsg url \<noteq> PortForwardInit"
  "WaitStop \<notin> set (browserFailureMsgs url)" "PortForwardInit \<notin> set (browserFailureMsgs url)"
  by (simp_all add: foundMsg_def availableMsg_def browserFailureMsgs_def searchAllPods_eq)

lemma count_list_append [simp]: "count_list (xs @ ys) a = count_list xs a + count_list ys a"
  by (induction xs) auto

lemma count_list_absent: "a \<notin> set xs \<Longrightarrow> count_list xs a = 0"
  by (induction xs) auto

lemma filter_available_none: "\<not> list_ex isAvailableMsg xs \<Longrightarrow> filter isAvailableMsg xs = []"
  by (induction xs) auto

text \<open>The example invocation, evaluated.\<close>

lemma example_url: "webURL 9090 = ''http://localhost:9090''"
  by (simp add: webURL_def defaultHost_def showInt_def showNat.simps digit_def)

lemma example_run:
  "Run exampleFlags exampleWorld =
     \<lparr>trace =
        [GetKubeConfigClient, CheckPodExists ''custom'', CheckPodExists ''dapr-system'',
         SignalNotify,
         NewPortForward ''dapr-system'' ''dapr-dashboard'' ''localhost'' 9090 8080 False,
         PortForwardInit,
         foundMsg ''dapr-system'', availableMsg ''http://localhost:9090'',
         OpenURL ''http://localhost:9090'',
         FailureStatusEvent ''Failed to start Dapr dashboard in browser automatically'' [],
         FailureStatusEvent
           ''Visit http://localhost:9090 in your browser to view the dashboard'' [],
         WaitStop, SignalStop],
      tunnel = Some \<lparr>phase = Stopped, stopFirings = 1\<rparr>, outcome = Returned\<rparr>"
proof -
  have s: "searchNamespaces (podExists exampleWorld) 0 (namespaces (dashboardNamespace exampleFlags))
      = (''dapr-system'', [''custom'', ''dapr-system''])"
    by (simp add: example_namespaces searchNamespaces_Cons) (simp add: exampleWorld_def)
  have reach: "\<not> dashboardVersion exampleFlags" "0 < dashboardLocalPort exampleFlags"
    "kubernetesMode exampleFlags" "kubeClientErr exampleWorld = None"
    by (simp_all add: exampleFlags_def exampleWorld_def)
  have pf: "newPortForwardErr exampleWorld ''dapr-system'' (dashboardLocalPort exampleFlags) = None"
    and init: "initErr exampleWorld = None"
    by (simp_all add: exampleWorld_def)
  have port: "dashboardLocalPort exampleFlags = 9090"
    by (simp add: exampleFlags_def)
  have browser: "openURLErr exampleWorld ''http://localhost:9090'' = Some ''exec: xdg-open not found''"
    and intr: "interrupt exampleWorld"
    by (simp_all add: exampleWorld_def)
  from forward_running [OF pf init]
  have "forwardDashboard exampleFlags exampleWorld ''dapr-system'' =
     \<lparr>trace =
        [SignalNotify,
         NewPortForward ''dapr-system'' ''dapr-dashboard'' ''localhost'' 9090 8080 False,
         PortForwardInit,
         foundMsg ''dapr-system'', availableMsg ''http://localhost:9090'',
         OpenURL ''http://localhost:9090'',
         FailureStatusEvent ''Failed to start Dapr dashboard in browser automatically'' [],
         FailureStatusEvent
           ''Visit http://localhost:9090 in your browser to view the dashboard'' [],
         WaitStop, SignalStop],
      tunnel = Some \<lparr>phase = Stopped, stopFirings = 1\<rparr>, outcome = Returned\<rparr>"
    by (cases "forwardDashboard exampleFlags exampleWorld ''dapr-system''")
      (simp add: port example_url browser intr browserFailureMsgs_def dashboardSvc_def
        defaultHost_def remotePort_def)
  with Run_cluster [OF reach s] show ?thesis by simp
qed

text \<open>\<open>showNat\<close> writes the decimal numeral of its argument: reading it gives the number back.\<close>

lemma digitValue_digit: "d < 10 \<Longrightarrow> digitValue (digit d) = d"
proof -
  assume "d < 10"
  then have "d = 0 \<or> d = 1 \<or> d = 2 \<or> d = 3 \<or> d = 4 \<or> d = 5 \<or> d = 6 \<or> d = 7 \<or> d = 8 \<or> d = 9"
    by arith
  then show ?thesis
    by (auto simp: digit_def digitValue_def)
qed

lemma readNat_showNat: "readNat (showNat n) = n"
proof (induction n rule: showNat.induct)
  case (1 n)
  show ?case
  proof (cases "n < 10")
    case True
    then show ?thesis
      by (simp add: showNat.simps [of n] readNat_def digitValue_digit)
  next
    case False
    with "1.IH" have "readNat (showNat (n div 10)) = n div 10" by simp
    with False show ?thesis
      by (simp add: showNat.simps [of n] readNat_def digitValue_digit)
  qed
qed

text \<open>The answer of the browser changes neither how a run ends nor the tunnel.\<close>

lemma Run_browser_irrelevant:
  "outcome (Run f (w\<lparr>openURLErr := g\<rparr>)) = outcome (Run f w)
   \<and> tunnel (Run f (w\<lparr>openURLErr := g\<rparr>)) = tunnel (Run f w)"
  by (simp add: Run_def clusterMode_def standaloneMode_def forwardDashboard_def
      announceAndWait_def interruptListener_def Let_def
      split: option.splits prod.splits sum.splits)

lemma Stop_idempotent: "Stop (Stop pf) = Stop pf"
  by (simp add: Stop_def)

section \<open>The order of the checks\<close>

text \<open>
  C10. With the version flag set the command prints the dashboard version and exits
  with status 0, whatever the port, the namespace and the kubernetes flag are: no port
  is validated, no client is built, no mode is entered.
\<close>

theorem version_flag_first:
  "dashboardVersion f \<Longrightarrow>
     Run f w = \<lparr>trace = [Println (versionString w)], tunnel = None, outcome = Exit 0\<rparr>"
  by (simp add: Run_def)

theorem version_flag_first_witness:
  "dashboardVersion versionFlags \<and> kubernetesMode versionFlags
   \<and> dashboardLocalPort versionFlags = 0
   \<and> Run versionFlags exampleWorld
       = \<lparr>trace = [Println ''0.1.0''], tunnel = None, outcome = Exit 0\<rparr>"
proof -
  have v: "dashboardVersion versionFlags"
    by (simp add: versionFlags_def exampleFlags_def)
  from version_flag_first [OF v, of exampleWorld] show ?thesis
    by (simp add: versionFlags_def exampleFlags_def exampleWorld_def)
qed

text \<open>
  C4, as stated, fails when the version flag is set: \<^verbatim>\<open>dapr dashboard -v -k -p 0\<close> never
  looks at the invalid port and exits with status 0.
\<close>

theorem invalid_port_counterexample:
  "dashboardLocalPort versionFlags \<le> 0
   \<and> outcome (Run versionFlags exampleWorld) = Exit 0
   \<and> trace (Run versionFlags exampleWorld) = [Println ''0.1.0'']"
  by (simp add: Run_def versionFlags_def exampleFlags_def exampleWorld_def)

text \<open>
  C4, amended. When the version flag is not set, a port that is zero or negative is
  rejected with exit status 1 and the run is the one message: no cluster client is
  built and no existence query is made.
\<close>

theorem invalid_port_rejected:
  assumes "\<not> dashboardVersion f" and "dashboardLocalPort f \<le> 0"
  shows "Run f w =
           \<lparr>trace = [FailureStatusEvent ''Invalid port: %v'' [ArgInt (dashboardLocalPort f)]],
            tunnel = None, outcome = Exit 1\<rparr>
         \<and> GetKubeConfigClient \<notin> set (trace (Run f w))
         \<and> probes (trace (Run f w)) = []"
  using assms by (simp add: Run_def)

theorem invalid_port_rejected_witness:
  "\<not> dashboardVersion (exampleFlags\<lparr>dashboardLocalPort := - 1\<rparr>)
   \<and> dashboardLocalPort (exampleFlags\<lparr>dashboardLocalPort := - 1\<rparr>) \<le> 0
   \<and> Run (exampleFlags\<lparr>dashboardLocalPort := - 1\<rparr>) exampleWorld =
       \<lparr>trace = [FailureStatusEvent ''Invalid port: %v'' [ArgInt (- 1)]],
        tunnel = None, outcome = Exit 1\<rparr>"
proof -
  have v: "\<not> dashboardVersion (exampleFlags\<lparr>dashboardLocalPort := - 1\<rparr>)"
    by (simp add: exampleFlags_def)
  have p: "dashboardLocalPort (exampleFlags\<lparr>dashboardLocalPort := - 1\<rparr>) \<le> 0"
    by simp
  from invalid_port_rejected [OF v p, of exampleWorld] v p show ?thesis
    by simp
qed

section \<open>The namespace search in cluster mode\<close>

text \<open>
  C1. In cluster mode (the version flag not set, the port valid, the client built), let
  the \<open>i\<close>-th candidate be the first whose query answers true. Then the loop returns
  that candidate after querying the candidates up to it, in priority order, and the
  whole run makes no query in a later candidate. When the candidate found is not the
  empty string, the queries of the run are exactly those of the loop and the tunnel is
  created in the namespace found. (An empty user namespace that answers true is
  returned as the empty string, which the command then treats as not found.) With
  \<open>i = 1\<close>: the dashboard is in the second candidate and not in the first, the second
  is returned and the third is never queried.
\<close>

theorem first_found_wins:
  assumes "\<not> dashboardVersion f" and "0 < dashboardLocalPort f" and "kubernetesMode f"
    and "kubeClientErr w = None"
    and "i < length (namespaces (dashboardNamespace f))"
    and "fst (podExists w i (namespaces (dashboardNamespace f) ! i))"
    and "\<forall>j<i. \<not> fst (podExists w j (namespaces (dashboardNamespace f) ! j))"
  shows "searchNamespaces (podExists w) 0 (namespaces (dashboardNamespace f))
           = (namespaces (dashboardNamespace f) ! i, take (Suc i) (namespaces (dashboardNamespace f)))
       \<and> set (probes (trace (Run f w))) \<inter> set (drop (Suc i) (namespaces (dashboardNamespace f))) = {}
       \<and> (namespaces (dashboardNamespace f) ! i \<noteq> '''' \<longrightarrow>
            probes (trace (Run f w)) = take (Suc i) (namespaces (dashboardNamespace f))
            \<and> NewPortForward (namespaces (dashboardNamespace f) ! i) dashboardSvc defaultHost
                 (dashboardLocalPort f) remotePort False \<in> set (trace (Run f w)))"
proof -
  let ?ns = "namespaces (dashboardNamespace f)"
  have s: "searchNamespaces (podExists w) 0 ?ns = (?ns ! i, take (Suc i) ?ns)"
    using search_first_hit [of i ?ns "podExists w" 0] assms(5-7) by simp
  note run = Run_cluster [OF assms(1-4) s]
  have disj: "set (take (Suc i) ?ns) \<inter> set (drop (Suc i) ?ns) = {}"
    using namespaces_distinct [of "dashboardNamespace f"] set_take_disj_set_drop_if_distinct
    by blast
  have later: "set (probes (trace (Run f w))) \<inter> set (drop (Suc i) ?ns) = {}"
  proof (cases "?ns ! i = ''''")
    case True
    with run have "probes (trace (Run f w)) = take (Suc i) ?ns @ ['''']"
      by (simp add: searchAllPods_eq)
    with disj empty_not_later_candidate [of i "dashboardNamespace f"] show ?thesis
      by auto
  next
    case False
    with run have "probes (trace (Run f w)) = take (Suc i) ?ns"
      by (simp add: forward_no_probes)
    with disj show ?thesis by simp
  qed
  have found: "?ns ! i \<noteq> '''' \<longrightarrow>
            probes (trace (Run f w)) = take (Suc i) ?ns
            \<and> NewPortForward (?ns ! i) dashboardSvc defaultHost
                 (dashboardLocalPort f) remotePort False \<in> set (trace (Run f w))"
    using run forward_creates_tunnel [of "?ns ! i" f w] by (simp add: forward_no_probes)
  from s later found show ?thesis by blast
qed

theorem first_found_wins_witness:
  "\<not> dashboardVersion exampleFlags \<and> 0 < dashboardLocalPort exampleFlags
   \<and> kubernetesMode exampleFlags \<and> kubeClientErr exampleWorld = None
   \<and> namespaces (dashboardNamespace exampleFlags) = [''custom'', ''dapr-system'', ''default'']
   \<and> \<not> fst (podExists exampleWorld 0 ''custom'')
   \<and> fst (podExists exampleWorld 1 ''dapr-system'')
   \<and> searchNamespaces (podExists exampleWorld) 0 (namespaces (dashboardNamespace exampleFlags))
       = (''dapr-system'', [''custom'', ''dapr-system''])
   \<and> probes (trace (Run exampleFlags exampleWorld)) = [''custom'', ''dapr-system'']
   \<and> ''default'' \<notin> set (probes (trace (Run exampleFlags exampleWorld)))
   \<and> NewPortForward ''dapr-system'' ''dapr-dashboard'' ''localhost'' 9090 8080 False
       \<in> set (trace (Run exampleFlags exampleWorld))"
proof -
  have reach: "\<not> dashboardVersion exampleFlags" "0 < dashboardLocalPort exampleFlags"
    "kubernetesMode exampleFlags" "kubeClientErr exampleWorld = None"
    by (simp_all add: exampleFlags_def exampleWorld_def)
  have len: "1 < length (namespaces (dashboardNamespace exampleFlags))"
    by (simp add: example_namespaces)
  have hit: "fst (podExists exampleWorld 1 (namespaces (dashboardNamespace exampleFlags) ! 1))"
    by (simp add: example_namespaces exampleWorld_def)
  have miss: "\<forall>j<1. \<not> fst (podExists exampleWorld j (namespaces (dashboardNamespace exampleFlags) ! j))"
    by (simp add: example_namespaces exampleWorld_def)
  from first_found_wins [OF reach len hit miss] reach hit miss show ?thesis
    by (simp add: example_namespaces exampleWorld_def dashboardSvc_def defaultHost_def
        remotePort_def)
      (simp add: exampleFlags_def)
qed

text \<open>
  C9. \<^verbatim>\<open>CheckPodExists\<close> returns a boolean and a string and no error: a query that fails
  can only answer false, as a query that finds nothing does, and the loop discards the
  string. So: after an answer false the loop goes on with the next candidate; two
  clusters whose answers have the same booleans give the same search, whatever else
  the answers carry; the namespaces queried are a prefix of the candidates, each
  queried at most once; the run never ends inside the search, it is longer than the
  client call and the queries of the loop. A client that cannot be built ends the run
  with status 1 before any query.
\<close>

theorem query_failure_is_not_found:
  "(\<not> fst (chk k n) \<longrightarrow>
      searchNamespaces chk k (n # rest) =
        (fst (searchNamespaces chk (Suc k) rest), n # snd (searchNamespaces chk (Suc k) rest)))
   \<and> ((\<forall>j m. fst (c1 j m) = fst (c2 j m)) \<longrightarrow>
        searchNamespaces c1 k ns = searchNamespaces c2 k ns)
   \<and> prefix (snd (searchNamespaces chk k ns)) ns
   \<and> (\<not> dashboardVersion f \<and> 0 < dashboardLocalPort f \<and> kubernetesMode f
        \<and> kubeClientErr w = Some err \<longrightarrow>
        Run f w =
          \<lparr>trace = [GetKubeConfigClient,
             FailureStatusEvent ''Failed to initialize kubernetes client: %s'' [ArgString err]],
           tunnel = None, outcome = Exit 1\<rparr>)
   \<and> (\<not> dashboardVersion f \<and> 0 < dashboardLocalPort f \<and> kubernetesMode f
        \<and> kubeClientErr w = None \<longrightarrow>
        prefix (GetKubeConfigClient
                # map CheckPodExists
                    (snd (searchNamespaces (podExists w) 0 (namespaces (dashboardNamespace f)))))
               (trace (Run f w))
        \<and> length (snd (searchNamespaces (podExists w) 0 (namespaces (dashboardNamespace f)))) + 1
            < length (trace (Run f w)))"
proof -
  have step: "\<not> fst (chk k n) \<longrightarrow>
      searchNamespaces chk k (n # rest) =
        (fst (searchNamespaces chk (Suc k) rest), n # snd (searchNamespaces chk (Suc k) rest))"
    by (simp add: searchNamespaces_Cons)
  have bool: "(\<forall>j m. fst (c1 j m) = fst (c2 j m)) \<longrightarrow>
        searchNamespaces c1 k ns = searchNamespaces c2 k ns"
    using search_bool_only [of c1 c2 k ns] by blast
  have client: "\<not> dashboardVersion f \<and> 0 < dashboardLocalPort f \<and> kubernetesMode f
        \<and> kubeClientErr w = Some err \<longrightarrow>
        Run f w =
          \<lparr>trace = [GetKubeConfigClient,
             FailureStatusEvent ''Failed to initialize kubernetes client: %s'' [ArgString err]],
           tunnel = None, outcome = Exit 1\<rparr>"
    by (simp add: Run_def clusterMode_def)
  have goes_on: "\<not> dashboardVersion f \<and> 0 < dashboardLocalPort f \<and> kubernetesMode f
        \<and> kubeClientErr w = None \<longrightarrow>
        prefix (GetKubeConfigClient
                # map CheckPodExists
                    (snd (searchNamespaces (podExists w) 0 (namespaces (dashboardNamespace f)))))
               (trace (Run f w))
        \<and> length (snd (searchNamespaces (podExists w) 0 (namespaces (dashboardNamespace f)))) + 1
            < length (trace (Run f w))"
  proof (intro impI, elim conjE)
    assume reach: "\<not> dashboardVersion f" "0 < dashboardLocalPort f" "kubernetesMode f"
      "kubeClientErr w = None"
    obtain found probed where
      s: "searchNamespaces (podExists w) 0 (namespaces (dashboardNamespace f)) = (found, probed)"
      by fastforce
    have "0 < length (trace (forwardDashboard f w found))"
      by (simp add: forwardDashboard_def Let_def split: option.splits sum.splits)
    with Run_cluster [OF reach s] s
    show "prefix (GetKubeConfigClient
                # map CheckPodExists
                    (snd (searchNamespaces (podExists w) 0 (namespaces (dashboardNamespace f)))))
               (trace (Run f w))
        \<and> length (snd (searchNamespaces (podExists w) 0 (namespaces (dashboardNamespace f)))) + 1
            < length (trace (Run f w))"
      by (simp add: searchAllPods_eq)
  qed
  from step bool search_probed_prefix [of chk k ns] client goes_on show ?thesis
    by blast
qed

theorem query_failure_is_not_found_witness:
  "\<not> fst (podExists exampleWorld 0 ''custom'')
   \<and> searchNamespaces (podExists exampleWorld) 0 [''custom'', ''dapr-system'', ''default'']
       = (''dapr-system'', [''custom'', ''dapr-system''])
   \<and> searchNamespaces (podExists exampleWorld) 1 [''dapr-system'', ''default'']
       = (''dapr-system'', [''dapr-system''])
   \<and> (\<forall>j m. fst (podExists exampleWorld j m) = fst (podExists otherAnswers j m))
   \<and> searchNamespaces (podExists otherAnswers) 0 [''custom'', ''dapr-system'', ''default'']
       = (''dapr-system'', [''custom'', ''dapr-system''])
   \<and> \<not> dashboardVersion exampleFlags \<and> 0 < dashboardLocalPort exampleFlags
   \<and> kubernetesMode exampleFlags \<and> kubeClientErr noCluster = Some ''invalid configuration''
   \<and> Run exampleFlags noCluster =
        \<lparr>trace = [GetKubeConfigClient,
           FailureStatusEvent ''Failed to initialize kubernetes client: %s''
             [ArgString ''invalid configuration'']],
         tunnel = None, outcome = Exit 1\<rparr>
   \<and> kubeClientErr exampleWorld = None
   \<and> prefix [GetKubeConfigClient, CheckPodExists ''custom'', CheckPodExists ''dapr-system'']
        (trace (Run exampleFlags exampleWorld))"
proof -
  have miss: "\<not> fst (podExists exampleWorld 0 ''custom'')"
    by (simp add: exampleWorld_def)
  have same: "\<forall>j m. fst (podExists exampleWorld j m) = fst (podExists otherAnswers j m)"
    by (simp add: exampleWorld_def otherAnswers_def)
  have reach: "\<not> dashboardVersion exampleFlags" "0 < dashboardLocalPort exampleFlags"
     "kubernetesMode exampleFlags"
    by (simp_all add: exampleFlags_def)
  have broken: "kubeClientErr noCluster = Some ''invalid configuration''"
    by (simp add: noCluster_def)
  have client: "kubeClientErr exampleWorld = None"
    by (simp add: exampleWorld_def)
  have rest: "searchNamespaces (podExists exampleWorld) 1 [''dapr-system'', ''default'']
       = (''dapr-system'', [''dapr-system''])"
    by (simp add: searchNamespaces_Cons exampleWorld_def)
  have s: "searchNamespaces (podExists exampleWorld) 0 (namespaces (dashboardNamespace exampleFlags))
      = (''dapr-system'', [''custom'', ''dapr-system''])"
    by (simp add: example_namespaces searchNamespaces_Cons) (simp add: exampleWorld_def)
  note inst = query_failure_is_not_found [of "podExists exampleWorld" 0 "''custom''"
      "[''dapr-system'', ''default'']" "podExists exampleWorld" "podExists otherAnswers"
      "[''custom'', ''dapr-system'', ''default'']" exampleFlags _ "''invalid configuration''"]
  from inst [of noCluster] miss rest
  have step: "searchNamespaces (podExists exampleWorld) 0 [''custom'', ''dapr-system'', ''default'']
       = (''dapr-system'', [''custom'', ''dapr-system''])"
    by simp
  from inst [of noCluster] same step
  have other: "searchNamespaces (podExists otherAnswers) 0 [''custom'', ''dapr-system'', ''default'']
       = (''dapr-system'', [''custom'', ''dapr-system''])"
    by simp
  from inst [of noCluster] reach broken
  have fatal: "Run exampleFlags noCluster =
        \<lparr>trace = [GetKubeConfigClient,
           FailureStatusEvent ''Failed to initialize kubernetes client: %s''
             [ArgString ''invalid configuration'']],
         tunnel = None, outcome = Exit 1\<rparr>"
    by blast
  from inst [of exampleWorld] reach client s
  have goes_on: "prefix [GetKubeConfigClient, CheckPodExists ''custom'', CheckPodExists ''dapr-system'']
        (trace (Run exampleFlags exampleWorld))"
    by simp
  from miss step rest same other reach broken fatal client goes_on show ?thesis
    by blast
qed

text \<open>
  C3. If the search finds the dashboard in no candidate namespace, the queries of the
  candidates are followed by exactly one more query, the fallback, with no namespace
  restriction, and by one message: the advice to use the namespace found, or the
  failure. The run exits with status 1 in both cases and makes no call on the tunnel
  provider or on a tunnel.
\<close>

theorem fallback_when_not_found:
  assumes "\<not> dashboardVersion f" and "0 < dashboardLocalPort f" and "kubernetesMode f"
    and "kubeClientErr w = None"
    and "\<forall>j<length (namespaces (dashboardNamespace f)).
           \<not> fst (podExists w j (namespaces (dashboardNamespace f) ! j))"
  shows "trace (Run f w) =
           GetKubeConfigClient # map CheckPodExists (namespaces (dashboardNamespace f))
           @ [CheckPodExists '''',
              if fst (podExists w (length (namespaces (dashboardNamespace f))) '''')
              then InfoStatusEvent
                     ''Dapr dashboard found in namespace: %s. Run dapr dashboard -k -n %s to use this namespace.''
                     [ArgString (snd (podExists w (length (namespaces (dashboardNamespace f))) '''')),
                      ArgString (snd (podExists w (length (namespaces (dashboardNamespace f))) ''''))]
              else FailureStatusEvent
                     ''Failed to find Dapr dashboard in cluster. Check status of dapr dashboard in the cluster.''
                     []]
       \<and> probes (drop (Suc (length (namespaces (dashboardNamespace f)))) (trace (Run f w))) = ['''']
       \<and> outcome (Run f w) = Exit 1
       \<and> tunnel (Run f w) = None
       \<and> filter isTunnelCall (trace (Run f w)) = []"
proof -
  let ?ns = "namespaces (dashboardNamespace f)"
  have s: "searchNamespaces (podExists w) 0 ?ns = ('''', ?ns)"
    using search_no_hit [of ?ns "podExists w" 0] assms(5) by simp
  from Run_cluster [OF assms(1-4) s]
  have run: "Run f w =
      \<lparr>trace = GetKubeConfigClient # map CheckPodExists ?ns @ searchAllPods w (length ?ns),
       tunnel = None, outcome = Exit 1\<rparr>"
    by simp
  have no_tunnel: "filter isTunnelCall (map CheckPodExists ?ns) = []"
    by (induction ?ns) auto
  have t: "filter isTunnelCall (trace (Run f w)) = []"
    unfolding run using no_tunnel by (simp add: searchAllPods_eq)
  have after: "probes (drop (Suc (length ?ns)) (trace (Run f w))) = ['''']"
    unfolding run by (simp add: searchAllPods_eq)
  from run t after show ?thesis by (simp add: searchAllPods_eq)
qed

theorem fallback_when_not_found_witness:
  "\<not> dashboardVersion exampleFlags \<and> 0 < dashboardLocalPort exampleFlags
   \<and> kubernetesMode exampleFlags \<and> kubeClientErr emptyCluster = None
   \<and> namespaces (dashboardNamespace exampleFlags) = [''custom'', ''dapr-system'', ''default'']
   \<and> \<not> fst (podExists emptyCluster 0 ''custom'')
   \<and> \<not> fst (podExists emptyCluster 1 ''dapr-system'')
   \<and> \<not> fst (podExists emptyCluster 2 ''default'')
   \<and> trace (Run exampleFlags emptyCluster) =
        [GetKubeConfigClient, CheckPodExists ''custom'', CheckPodExists ''dapr-system'',
         CheckPodExists ''default'', CheckPodExists '''',
         FailureStatusEvent
           ''Failed to find Dapr dashboard in cluster. Check status of dapr dashboard in the cluster.''
           []]
   \<and> outcome (Run exampleFlags emptyCluster) = Exit 1
   \<and> tunnel (Run exampleFlags emptyCluster) = None"
proof -
  have reach: "\<not> dashboardVersion exampleFlags" "0 < dashboardLocalPort exampleFlags"
    "kubernetesMode exampleFlags" "kubeClientErr emptyCluster = None"
    by (simp_all add: exampleFlags_def exampleWorld_def emptyCluster_def)
  have miss: "\<forall>j<length (namespaces (dashboardNamespace exampleFlags)).
      \<not> fst (podExists emptyCluster j (namespaces (dashboardNamespace exampleFlags) ! j))"
    by (simp add: emptyCluster_def)
  from fallback_when_not_found [OF reach miss] reach show ?thesis
    by (simp add: example_namespaces) (simp add: emptyCluster_def)
qed

section \<open>The tunnel and the announcement\<close>

text \<open>
  C5. A "dashboard available" message in the trace of a run is printed once, it is the
  message with the local URL, \<^verbatim>\<open>Init\<close> has returned no error, the call of \<^verbatim>\<open>Init\<close> is
  before the message and the receive on the stop channel is after it: no such message
  is printed before \<^verbatim>\<open>Init\<close> or after the wait has begun.
\<close>

theorem available_after_init_before_wait:
  assumes "e \<in> set (trace (Run f w))" and "isAvailableMsg e"
  shows "initErr w = None
       \<and> e = availableMsg (webURL (dashboardLocalPort f))
       \<and> (\<exists>pre mid post.
             trace (Run f w) = pre @ PortForwardInit # mid @ WaitStop # post
             \<and> e \<in> set mid
             \<and> \<not> list_ex isAvailableMsg pre \<and> \<not> list_ex isAvailableMsg post)
       \<and> length (filter isAvailableMsg (trace (Run f w))) = 1
       \<and> count_list (trace (Run f w)) PortForwardInit = 1
       \<and> count_list (trace (Run f w)) WaitStop = 1"
proof (cases rule: Run_cases [of f w])
  case Version
  with assms show ?thesis by auto
next
  case InvalidPort
  with assms show ?thesis by auto
next
  case Standalone
  with assms show ?thesis by (auto simp: standaloneMode_eq split: option.splits)
next
  case (NoClient err)
  with assms show ?thesis by auto
next
  case (NotFound probed)
  from assms NotFound(6) have "list_ex isAvailableMsg (map CheckPodExists probed @ searchAllPods w (length probed))"
    by (auto simp: list_ex_iff)
  then show ?thesis by simp
next
  case (NoTunnel found probed err)
  from assms NoTunnel(8) have "list_ex isAvailableMsg (map CheckPodExists probed)"
    by (auto simp: list_ex_iff)
  then show ?thesis by simp
next
  case (InitFails found probed err)
  from assms InitFails(9) have "list_ex isAvailableMsg (map CheckPodExists probed)"
    by (auto simp: list_ex_iff)
  then show ?thesis by simp
next
  case (Running found probed)
  let ?url = "webURL (dashboardLocalPort f)"
  let ?pre = "GetKubeConfigClient # map CheckPodExists probed @
          [SignalNotify,
           NewPortForward found dashboardSvc defaultHost (dashboardLocalPort f) remotePort False]"
  let ?browser = "case openURLErr w ?url of Some err \<Rightarrow> browserFailureMsgs ?url | None \<Rightarrow> []"
  let ?mid = "[foundMsg found, availableMsg ?url, OpenURL ?url] @ ?browser"
  let ?post = "if interrupt w then [SignalStop] else []"
  have browser: "\<not> list_ex isAvailableMsg ?browser" "WaitStop \<notin> set ?browser"
    "PortForwardInit \<notin> set ?browser"
    by (simp_all split: option.splits)
  have t: "trace (Run f w) = ?pre @ PortForwardInit # ?mid @ WaitStop # ?post"
    using Running(9) by simp
  have pre: "\<not> list_ex isAvailableMsg ?pre" by simp
  have post: "\<not> list_ex isAvailableMsg ?post" by simp
  have e: "e = availableMsg ?url"
  proof -
    from assms(1) t have "e \<in> set ?pre \<or> e = PortForwardInit \<or> e \<in> set ?mid \<or> e = WaitStop \<or> e \<in> set ?post"
      by auto
    with assms(2) pre post have "e \<in> set ?mid"
      by (auto simp: list_ex_iff)
    with assms(2) browser(1) show ?thesis
      by (auto simp: list_ex_iff)
  qed
  then have mid: "e \<in> set ?mid" by simp
  have one: "length (filter isAvailableMsg (trace (Run f w))) = 1"
    unfolding t using filter_available_none [OF browser(1)] filter_available_none [OF pre]
    by simp
  have init_once: "count_list (trace (Run f w)) PortForwardInit = 1"
    unfolding t using count_list_absent [OF browser(3)] by simp
  have wait_once: "count_list (trace (Run f w)) WaitStop = 1"
    unfolding t using count_list_absent [OF browser(2)] by simp
  from t mid pre post have "\<exists>pre mid post.
             trace (Run f w) = pre @ PortForwardInit # mid @ WaitStop # post
             \<and> e \<in> set mid
             \<and> \<not> list_ex isAvailableMsg pre \<and> \<not> list_ex isAvailableMsg post"
    by blast
  with Running(8) e one init_once wait_once show ?thesis by blast
qed

theorem available_after_init_before_wait_witness:
  "availableMsg ''http://localhost:9090'' \<in> set (trace (Run exampleFlags exampleWorld))
   \<and> isAvailableMsg (availableMsg ''http://localhost:9090'')
   \<and> initErr exampleWorld = None
   \<and> availableMsg ''http://localhost:9090'' = availableMsg (webURL (dashboardLocalPort exampleFlags))
   \<and> (\<exists>pre mid post.
         trace (Run exampleFlags exampleWorld) = pre @ PortForwardInit # mid @ WaitStop # post
         \<and> availableMsg ''http://localhost:9090'' \<in> set mid
         \<and> \<not> list_ex isAvailableMsg pre \<and> \<not> list_ex isAvailableMsg post)
   \<and> length (filter isAvailableMsg (trace (Run exampleFlags exampleWorld))) = 1"
proof -
  have printed: "availableMsg ''http://localhost:9090'' \<in> set (trace (Run exampleFlags exampleWorld))"
    by (simp add: example_run)
  have msg: "isAvailableMsg (availableMsg ''http://localhost:9090'')"
    by simp
  from available_after_init_before_wait [OF printed msg] printed msg show ?thesis
    by blast
qed

text \<open>
  C6. A run creates at most one tunnel. When \<^verbatim>\<open>Init\<close> has been called and has returned
  no error, the main goroutine receives on the stop channel exactly once, as its last
  call before the deferred cleanup; the run does not exit: it stays blocked with the
  tunnel running, or it returns and then the StopSignal of the tunnel has fired,
  once. On the tunnel as the spec describes it, a second \<^verbatim>\<open>Stop\<close> changes nothing, and
  two calls of \<^verbatim>\<open>Stop\<close> on a tunnel that is not stopped fire the StopSignal once.
\<close>

theorem one_tunnel_one_stop_signal:
  "tunnelsCreated (trace (Run f w)) \<le> 1
   \<and> (PortForwardInit \<in> set (trace (Run f w)) \<and> initErr w = None \<longrightarrow>
        count_list (trace (Run f w)) WaitStop = 1
        \<and> (\<exists>pre. trace (Run f w) =
               pre @ WaitStop # (if outcome (Run f w) = Returned then [SignalStop] else []))
        \<and> (outcome (Run f w) = Returned \<or> outcome (Run f w) = Blocked)
        \<and> (outcome (Run f w) = Returned \<longrightarrow>
              (\<exists>pf. tunnel (Run f w) = Some pf \<and> GetStop pf \<and> stopFirings pf = 1))
        \<and> (outcome (Run f w) = Blocked \<longrightarrow>
              (\<exists>pf. tunnel (Run f w) = Some pf \<and> \<not> GetStop pf \<and> phase pf = Running)))
   \<and> Stop (Stop pf) = Stop pf
   \<and> (phase pf \<noteq> Stopped \<longrightarrow> stopFirings (Stop (Stop pf)) = Suc (stopFirings pf))"
proof -
  have twice: "phase pf \<noteq> Stopped \<longrightarrow> stopFirings (Stop (Stop pf)) = Suc (stopFirings pf)"
    by (simp add: Stop_def)
  have run: "tunnelsCreated (trace (Run f w)) \<le> 1
   \<and> (PortForwardInit \<in> set (trace (Run f w)) \<and> initErr w = None \<longrightarrow>
        count_list (trace (Run f w)) WaitStop = 1
        \<and> (\<exists>pre. trace (Run f w) =
               pre @ WaitStop # (if outcome (Run f w) = Returned then [SignalStop] else []))
        \<and> (outcome (Run f w) = Returned \<or> outcome (Run f w) = Blocked)
        \<and> (outcome (Run f w) = Returned \<longrightarrow>
              (\<exists>pf. tunnel (Run f w) = Some pf \<and> GetStop pf \<and> stopFirings pf = 1))
        \<and> (outcome (Run f w) = Blocked \<longrightarrow>
              (\<exists>pf. tunnel (Run f w) = Some pf \<and> \<not> GetStop pf \<and> phase pf = Running)))"
  proof (cases rule: Run_cases [of f w])
    case Version
    then show ?thesis by (simp add: tunnelsCreated_def)
  next
    case InvalidPort
    then show ?thesis by (simp add: tunnelsCreated_def)
  next
    case Standalone
    then show ?thesis by (simp add: tunnelsCreated_def standaloneMode_eq split: option.splits)
  next
    case (NoClient err)
    then show ?thesis by (simp add: tunnelsCreated_def)
  next
    case (NotFound probed)
    then show ?thesis by (auto simp: tunnelsCreated_def searchAllPods_eq)
  next
    case (NoTunnel found probed err)
    then show ?thesis by (auto simp: tunnelsCreated_def)
  next
    case (InitFails found probed err)
    then show ?thesis by (simp add: tunnelsCreated_def)
  next
    case (Running found probed)
    let ?url = "webURL (dashboardLocalPort f)"
    let ?browser = "case openURLErr w ?url of Some err \<Rightarrow> browserFailureMsgs ?url | None \<Rightarrow> []"
    have browser: "WaitStop \<notin> set ?browser" "filter isNewPortForward ?browser = []"
      by (simp_all add: browserFailureMsgs_def split: option.splits)
    have created: "tunnelsCreated (trace (Run f w)) \<le> 1"
      using Running(9) browser(2) by (simp add: tunnelsCreated_def foundMsg_def availableMsg_def)
    have wait_once: "count_list (trace (Run f w)) WaitStop = 1"
      using Running(9) count_list_absent [OF browser(1)] by simp
    have last_call: "\<exists>pre. trace (Run f w) =
               pre @ WaitStop # (if outcome (Run f w) = Returned then [SignalStop] else [])"
      using Running(9) by simp
    have out: "outcome (Run f w) = Returned \<or> outcome (Run f w) = Blocked"
      using Running(9) by simp
    have fired: "outcome (Run f w) = Returned \<longrightarrow>
              (\<exists>pf. tunnel (Run f w) = Some pf \<and> GetStop pf \<and> stopFirings pf = 1)"
      using Running(9) by (simp add: GetStop_def)
    have blocked: "outcome (Run f w) = Blocked \<longrightarrow>
              (\<exists>pf. tunnel (Run f w) = Some pf \<and> \<not> GetStop pf \<and> phase pf = Running)"
      using Running(9) by (simp add: GetStop_def)
    from created wait_once last_call out fired blocked show ?thesis by blast
  qed
  from run Stop_idempotent [of pf] twice show ?thesis by blast
qed

theorem one_tunnel_one_stop_signal_witness:
  "tunnelsCreated (trace (Run exampleFlags exampleWorld)) \<le> 1
   \<and> PortForwardInit \<in> set (trace (Run exampleFlags exampleWorld))
   \<and> initErr exampleWorld = None
   \<and> count_list (trace (Run exampleFlags exampleWorld)) WaitStop = 1
   \<and> outcome (Run exampleFlags exampleWorld) = Returned
   \<and> tunnel (Run exampleFlags exampleWorld) = Some \<lparr>phase = Stopped, stopFirings = 1\<rparr>
   \<and> GetStop \<lparr>phase = Stopped, stopFirings = 1\<rparr>
   \<and> phase \<lparr>phase = Running, stopFirings = 0\<rparr> \<noteq> Stopped
   \<and> Stop (Stop \<lparr>phase = Running, stopFirings = 0\<rparr>) = Stop \<lparr>phase = Running, stopFirings = 0\<rparr>
   \<and> stopFirings (Stop (Stop \<lparr>phase = Running, stopFirings = 0\<rparr>)) = 1"
proof -
  have called: "PortForwardInit \<in> set (trace (Run exampleFlags exampleWorld))"
    by (simp add: example_run)
  have init: "initErr exampleWorld = None"
    by (simp add: exampleWorld_def)
  have running: "phase \<lparr>phase = Running, stopFirings = 0\<rparr> \<noteq> Stopped"
    by simp
  from one_tunnel_one_stop_signal [of exampleFlags exampleWorld "\<lparr>phase = Running, stopFirings = 0\<rparr>"]
    called init running
  show ?thesis
    by (simp add: example_run GetStop_def Stop_def)
qed

text \<open>
  C7. When \<^verbatim>\<open>Init\<close> has been called and has returned no error, the local URL is
  \<^verbatim>\<open>http://localhost:\<close> followed by the decimal numeral of the local port
  (\<^verbatim>\<open>http://localhost:9090\<close> for the port 9090). If the browser cannot be opened, the
  run prints the failure and then the same URL again and goes on to the receive on the
  stop channel; it ends as it would with a browser, blocked or returned and never by an
  exit, and leaves the tunnel in the same state.
\<close>

theorem browser_failure_not_fatal:
  assumes "PortForwardInit \<in> set (trace (Run f w))" and "initErr w = None"
    and "openURLErr w (webURL (dashboardLocalPort f)) = Some err"
  shows "webURL (dashboardLocalPort f) = ''http://localhost:'' @ showInt (dashboardLocalPort f)
       \<and> int (readNat (showInt (dashboardLocalPort f))) = dashboardLocalPort f
       \<and> webURL 9090 = ''http://localhost:9090''
       \<and> (\<exists>pre. trace (Run f w) =
             pre @ [availableMsg (webURL (dashboardLocalPort f)),
                    OpenURL (webURL (dashboardLocalPort f)),
                    FailureStatusEvent ''Failed to start Dapr dashboard in browser automatically'' [],
                    FailureStatusEvent
                      (''Visit '' @ webURL (dashboardLocalPort f)
                       @ '' in your browser to view the dashboard'') [],
                    WaitStop]
                 @ (if interrupt w then [SignalStop] else []))
       \<and> outcome (Run f w) = (if interrupt w then Returned else Blocked)
       \<and> outcome (Run f w) = outcome (Run f (w\<lparr>openURLErr := \<lambda>url. None\<rparr>))
       \<and> tunnel (Run f w) = tunnel (Run f (w\<lparr>openURLErr := \<lambda>url. None\<rparr>))"
proof (cases rule: Run_cases [of f w])
  case Version
  with assms(1) show ?thesis by simp
next
  case InvalidPort
  with assms(1) show ?thesis by simp
next
  case Standalone
  with assms(1) show ?thesis by (simp add: standaloneMode_eq split: option.splits)
next
  case (NoClient err)
  with assms(1) show ?thesis by simp
next
  case (NotFound probed)
  with assms(1) show ?thesis by (auto simp: searchAllPods_eq split: if_splits)
next
  case (NoTunnel found probed err)
  with assms(1) show ?thesis by auto
next
  case (InitFails found probed err)
  with assms(2) show ?thesis by simp
next
  case (Running found probed)
  let ?url = "webURL (dashboardLocalPort f)"
  have url: "?url = ''http://localhost:'' @ showInt (dashboardLocalPort f)"
    by (simp add: webURL_def defaultHost_def)
  have decimal: "int (readNat (showInt (dashboardLocalPort f))) = dashboardLocalPort f"
    using Running(2) by (simp add: showInt_def readNat_showNat)
  have t: "\<exists>pre. trace (Run f w) =
             pre @ [availableMsg ?url, OpenURL ?url,
                    FailureStatusEvent ''Failed to start Dapr dashboard in browser automatically'' [],
                    FailureStatusEvent (''Visit '' @ ?url @ '' in your browser to view the dashboard'') [],
                    WaitStop]
                 @ (if interrupt w then [SignalStop] else [])"
    using Running(9) assms(3) by (simp add: browserFailureMsgs_def)
  have out: "outcome (Run f w) = (if interrupt w then Returned else Blocked)"
    using Running(9) by simp
  from url decimal example_url t out Run_browser_irrelevant [of f "\<lambda>url. None" w]
  show ?thesis by simp
qed

theorem browser_failure_not_fatal_witness:
  "PortForwardInit \<in> set (trace (Run exampleFlags exampleWorld))
   \<and> initErr exampleWorld = None
   \<and> openURLErr exampleWorld (webURL (dashboardLocalPort exampleFlags))
       = Some ''exec: xdg-open not found''
   \<and> webURL (dashboardLocalPort exampleFlags) = ''http://localhost:9090''
   \<and> trace (Run exampleFlags exampleWorld) =
        [GetKubeConfigClient, CheckPodExists ''custom'', CheckPodExists ''dapr-system'',
         SignalNotify,
         NewPortForward ''dapr-system'' ''dapr-dashboard'' ''localhost'' 9090 8080 False,
         PortForwardInit,
         foundMsg ''dapr-system'']
        @ [availableMsg ''http://localhost:9090'',
           OpenURL ''http://localhost:9090'',
           FailureStatusEvent ''Failed to start Dapr dashboard in browser automatically'' [],
           FailureStatusEvent
             ''Visit http://localhost:9090 in your browser to view the dashboard'' [],
           WaitStop]
        @ [SignalStop]
   \<and> outcome (Run exampleFlags exampleWorld) = Returned
   \<and> outcome (Run exampleFlags (exampleWorld\<lparr>openURLErr := \<lambda>url. None\<rparr>)) = Returned"
proof -
  have called: "PortForwardInit \<in> set (trace (Run exampleFlags exampleWorld))"
    by (simp add: example_run)
  have init: "initErr exampleWorld = None"
    by (simp add: exampleWorld_def)
  have browser: "openURLErr exampleWorld (webURL (dashboardLocalPort exampleFlags))
       = Some ''exec: xdg-open not found''"
    by (simp add: exampleWorld_def)
  have port: "dashboardLocalPort exampleFlags = 9090"
    by (simp add: exampleFlags_def)
  from browser_failure_not_fatal [OF called init browser] called init browser
  show ?thesis
    by (simp add: example_run port example_url)
qed

section \<open>Standalone mode\<close>

text \<open>
  C8. Without the kubernetes flag, when the standalone launcher has been called and has
  returned an error, the run is the call of the launcher followed by the one message
  "Dapr dashboard not found. Is Dapr installed?": no cluster client is built and no
  existence query is made.
\<close>

theorem standalone_failure:
  assumes "\<not> kubernetesMode f" and "StandaloneRun p \<in> set (trace (Run f w))"
    and "standaloneRunErr w p = Some err"
  shows "Run f w =
           \<lparr>trace = [StandaloneRun p,
                     FailureStatusEvent ''Dapr dashboard not found. Is Dapr installed?'' []],
            tunnel = None, outcome = Returned\<rparr>
       \<and> p = dashboardLocalPort f
       \<and> GetKubeConfigClient \<notin> set (trace (Run f w))
       \<and> probes (trace (Run f w)) = []"
proof (cases rule: Run_cases [of f w])
  case Version
  with assms(2) show ?thesis by simp
next
  case InvalidPort
  with assms(2) show ?thesis by simp
next
  case Standalone
  from assms(2) Standalone(4) have p: "p = dashboardLocalPort f"
    by (simp add: standaloneMode_eq split: option.splits)
  with assms(3) Standalone(4) show ?thesis
    by (simp add: standaloneMode_eq)
qed (use assms(1) in simp_all)

theorem standalone_failure_witness:
  "\<not> kubernetesMode standaloneFlags
   \<and> StandaloneRun 9090 \<in> set (trace (Run standaloneFlags exampleWorld))
   \<and> standaloneRunErr exampleWorld 9090 = Some ''exit status 1''
   \<and> Run standaloneFlags exampleWorld =
        \<lparr>trace = [StandaloneRun 9090,
                  FailureStatusEvent ''Dapr dashboard not found. Is Dapr installed?'' []],
         tunnel = None, outcome = Returned\<rparr>"
proof -
  have mode: "\<not> kubernetesMode standaloneFlags"
    by (simp add: standaloneFlags_def)
  have called: "StandaloneRun 9090 \<in> set (trace (Run standaloneFlags exampleWorld))"
    by (simp add: Run_def standaloneMode_eq standaloneFlags_def exampleFlags_def)
  have err: "standaloneRunErr exampleWorld 9090 = Some ''exit status 1''"
    by (simp add: exampleWorld_def)
  from standalone_failure [OF mode called err] mode called err show ?thesis
    by simp
qed

end
